theory Spec2Isabelle
  imports Main
begin

section \<open>React element trees\<close>

text \<open>
  The executable code of the site is two TSX modules: the \<open>HomepageFeatures\<close> component
  module and \<open>src/pages/index.tsx\<close>. Their functions return React element trees, which
  are modelled by the datatype \<open>node\<close>:
  \<^item> \<open>Text s\<close> is a string child (JSX text, or \<open>{title}\<close>);
  \<^item> \<open>Fragment cs\<close> is \<open><>...</>\<close>;
  \<^item> \<open>Element t props cs\<close> is a host element (\<open>Host ''div''\<close>) or an element of a
    component that is imported from outside the repository (\<open>Comp ''@theme/Heading''\<close>),
    kept with its props and children;
  \<^item> \<open>Local name key out\<close> is an element of a component defined in these two modules
    (\<open><Feature key={idx} {...props} />\<close>): the component's name, the React key and the
    tree \<open>out\<close> that the component function returns for the props.

  A component is identified by the specifier it is imported from. Strings are byte
  lists: a character outside ASCII is written as its UTF-8 bytes.
\<close>

type_synonym component = string

datatype pval = Str string | Obj "(string \<times> string) list"

datatype etype = Host string | Comp component

datatype node =
    Text string
  | Fragment "node list"
  | Element etype "(string \<times> pval) list" "node list"
  | Local string "nat option" node

fun children :: "node \<Rightarrow> node list" where
  "children (Text s) = []"
| "children (Fragment cs) = cs"
| "children (Element t ps cs) = cs"
| "children (Local n k out) = [out]"

fun class_name :: "node \<Rightarrow> pval option" where
  "class_name (Element t ps cs) = map_of ps ''className''"
| "class_name _ = None"

text \<open>The nodes of a tree in document order (a node before its children, children
  from first to last).\<close>

fun document_order :: "node \<Rightarrow> node list" where
  "document_order (Text s) = [Text s]"
| "document_order (Fragment cs) = Fragment cs # concat (map document_order cs)"
| "document_order (Element t ps cs) = Element t ps cs # concat (map document_order cs)"
| "document_order (Local n k out) = Local n k out # document_order out"

text \<open>What a \<open>Local\<close> element carries: its key and the output of its component.\<close>

fun cell_key :: "node \<Rightarrow> nat option" where
  "cell_key (Local n k out) = k"
| "cell_key _ = None"

fun cell_output :: "node \<Rightarrow> node" where
  "cell_output (Local n k out) = out"
| "cell_output other = other"


section \<open>Library functions the modules call\<close>

text \<open>
  \<open>clsx\<close> on string arguments joins the non-empty ones with a single space.
  \<open>Array.prototype.map\<close> calls its callback with each element and its index, from
  index 0 upwards, and collects the results in a new array; the array it is called on
  is left as it is.
\<close>

fun join_space :: "string list \<Rightarrow> string" where
  "join_space [] = []"
| "join_space [s] = s"
| "join_space (s # t # ss) = s @ '' '' @ join_space (t # ss)"

definition clsx :: "string list \<Rightarrow> string" where
  "clsx args = join_space (filter (\<lambda>s. s \<noteq> []) args)"

fun map_from :: "nat \<Rightarrow> ('a \<Rightarrow> nat \<Rightarrow> 'b) \<Rightarrow> 'a list \<Rightarrow> 'b list" where
  "map_from idx f [] = []"
| "map_from idx f (x # xs) = f x idx # map_from (Suc idx) f xs"

definition array_map :: "('a \<Rightarrow> nat \<Rightarrow> 'b) \<Rightarrow> 'a list \<Rightarrow> 'b list" where
  "array_map f xs = map_from 0 f xs"


section \<open>The HomepageFeatures module\<close>

text \<open>\<open>siteConfig\<close> is the part of the Docusaurus context that \<open>index.tsx\<close> reads. It
  is declared here, before \<open>FeatureItem\<close>, so that \<open>title\<close> alone names the field of
  \<open>FeatureItem\<close>; the site's title is \<open>siteConfig.title\<close>.\<close>

record siteConfig =
  title :: string
  tagline :: string

record FeatureItem =
  title :: string
  Svg :: component
  description :: node

text \<open>\<open>styles\<close> is the CSS module \<open>./styles.module.css\<close>: the generated class names
  of its two classes. The file is not part of the sources, so it is a parameter.\<close>

record styles =
  features :: string
  featureSvg :: string

text \<open>
  Modelled from the spec: the module resolution behind \<open>require\<close> (the bundler of the
  site generator and the asset files under \<open>static/img\<close>) is not part of the sources.
  The spec says that a missing asset file is a build-time error, so a specifier that
  does not resolve makes \<open>require\<close> fail with \<open>ModuleNotFound\<close>, and the failure ends
  the evaluation of the module. The resolution itself is a parameter: a partial map
  from specifiers to the default export of the module they name.
\<close>

datatype error = ModuleNotFound string

definition require :: "(string \<rightharpoonup> component) \<Rightarrow> string \<Rightarrow> error + component" where
  "require modules path =
     (case modules path of None \<Rightarrow> Inl (ModuleNotFound path) | Some c \<Rightarrow> Inr c)"

text \<open>The array literal of \<open>FeatureList\<close>, given the three components that the
  \<open>require\<close> calls returned.\<close>

definition FeatureList_items :: "component \<Rightarrow> component \<Rightarrow> component \<Rightarrow> FeatureItem list" where
  "FeatureList_items svg1 svg2 svg3 =
     [\<lparr>title = ''Accessible by design'',
       Svg = svg1,
       description = Fragment [Text
         (''Alliage doesn't drown you in complex patterns or overwhelming concepts. '' @
          ''It provides all the tools to follow best practices like SOLID principles '' @
          ''and clean architecture, but makes them feel natural and effortless.'')]\<rparr>,
      \<lparr>title = ''Testing-driven from the ground up'',
       Svg = svg2,
       description = Fragment [Text
         (''Testing isn't an afterthought'' @ [CHR 0xE2, CHR 0x80, CHR 0x94] @
          ''it's built into Alliage's DNA. Dependency '' @
          ''injection makes each piece of code independent and easily testable, while '' @
          ''our sandbox environment lets you run integration tests in complete isolation.'')]\<rparr>,
      \<lparr>title = ''Configuration that just works'',
       Svg = svg3,
       description = Fragment [Text
         (''Keep your configuration outside your code where it belongs, while making '' @
          ''it seamlessly permeable to different environments. No more hardcoded '' @
          ''values or configuration chaos.'')]\<rparr>]"

text \<open>The specifiers that the definition of \<open>FeatureList\<close> requires, in the order of
  evaluation.\<close>

definition icon_modules :: "string list" where
  "icon_modules =
     [''@site/static/img/undraw_road-to-knowledge_f9zn.svg'',
      ''@site/static/img/undraw_scientist_5td0.svg'',
      ''@site/static/img/undraw_active-options_et7o.svg'']"

text \<open>The evaluation of \<open>const FeatureList = [...]\<close>: the three \<open>require\<close> calls
  run in the order of the items, and the first that fails ends the evaluation.\<close>

definition FeatureList :: "(string \<rightharpoonup> component) \<Rightarrow> error + FeatureItem list" where
  "FeatureList modules =
     (case require modules ''@site/static/img/undraw_road-to-knowledge_f9zn.svg'' of
        Inl e \<Rightarrow> Inl e
      | Inr svg1 \<Rightarrow>
     (case require modules ''@site/static/img/undraw_scientist_5td0.svg'' of
        Inl e \<Rightarrow> Inl e
      | Inr svg2 \<Rightarrow>
     (case require modules ''@site/static/img/undraw_active-options_et7o.svg'' of
        Inl e \<Rightarrow> Inl e
      | Inr svg3 \<Rightarrow> Inr (FeatureList_items svg1 svg2 svg3))))"

definition Heading :: component where
  "Heading = ''@theme/Heading''"

definition Feature :: "styles \<Rightarrow> FeatureItem \<Rightarrow> node" where
  "Feature st props =
     Element (Host ''div'') [(''className'', Str (clsx [''col col--4'']))]
       [Element (Host ''div'') [(''className'', Str ''text--center'')]
          [Element (Comp (Svg props))
             [(''className'', Str (featureSvg st)), (''role'', Str ''img'')] []],
        Element (Host ''div'') [(''className'', Str ''text--center padding-horiz--md'')]
          [Element (Comp Heading) [(''as'', Str ''h3'')] [Text (title props)],
           Element (Host ''p'') [] [description props]]]"

text \<open>
  \<open>HomepageFeatures\<close> takes no argument and reads the module-level array
  \<open>FeatureList\<close>. The array is a mutable object, so the model passes its contents in
  and returns them with the markup: what the function leaves in the array is part of
  its result.
\<close>

definition HomepageFeatures :: "styles \<Rightarrow> FeatureItem list \<Rightarrow> node \<times> FeatureItem list" where
  "HomepageFeatures st fl =
     (Element (Host ''section'') [(''className'', Str (features st))]
        [Element (Host ''div'') [(''className'', Str ''container'')]
           [Element (Host ''div'') [(''className'', Str ''row'')]
              (array_map (\<lambda>props idx. Local ''Feature'' (Some idx) (Feature st props)) fl)]],
      fl)"

text \<open>The row containers of the section (the elements of class \<open>row\<close> inside the
  section's container) and the cells they hold.\<close>

definition row_containers :: "node \<Rightarrow> node list" where
  "row_containers out =
     filter (\<lambda>n. class_name n = Some (Str ''row'')) (concat (map children (children out)))"

definition row_cells :: "node \<Rightarrow> node list" where
  "row_cells out = concat (map children (row_containers out))"


text \<open>Evaluating the module and rendering its default export once: there is markup
  only if the module's evaluation produced \<open>FeatureList\<close>.\<close>

definition import_and_render ::
  "(string \<rightharpoonup> component) \<Rightarrow> styles \<Rightarrow> error + (node \<times> FeatureItem list)" where
  "import_and_render modules st =
     (case FeatureList modules of
        Inl e \<Rightarrow> Inl e
      | Inr fl \<Rightarrow> Inr (HomepageFeatures st fl))"


section \<open>The page module index.tsx\<close>

text \<open>\<open>index_styles\<close> is the CSS module \<open>./index.module.css\<close>, a parameter like
  \<open>styles\<close>. The hook \<open>useBaseUrl\<close> is a parameter as well: a function on paths.\<close>

record index_styles =
  heroBanner :: string
  buttons :: string

definition ThemedImage :: component where
  "ThemedImage = ''@theme/ThemedImage''"

definition Link :: component where
  "Link = ''@docusaurus/Link''"

definition Layout :: component where
  "Layout = ''@theme/Layout''"

definition HomepageHeader :: "siteConfig \<Rightarrow> (string \<Rightarrow> string) \<Rightarrow> index_styles \<Rightarrow> node" where
  "HomepageHeader cfg useBaseUrl ist =
     Element (Host ''header'')
       [(''className'', Str (clsx [''hero hero--primary'', heroBanner ist]))]
       [Element (Host ''div'') [(''className'', Str ''container'')]
          [Element (Comp ThemedImage)
             [(''alt'', Str ''Alliage logo''),
              (''sources'', Obj [(''light'', useBaseUrl ''/img/alliage-logo-light.svg''),
                                (''dark'', useBaseUrl ''/img/alliage-logo-dark.svg'')]),
              (''width'', Str ''500'')] [],
           Element (Host ''p'')
             [(''className'', Str ''hero__subtitle''),
              (''style'', Obj [(''marginTop'', ''2rem''), (''marginBottom'', ''2rem'')])]
             [Text (tagline cfg)],
           Element (Host ''div'') [(''className'', Str (buttons ist))]
             [Element (Comp Link)
                [(''className'', Str ''button button--secondary button--lg''),
                 (''to'', Str ''/docs/intro'')]
                [Text ''Get started'']]]]"

definition Home ::
  "siteConfig \<Rightarrow> (string \<Rightarrow> string) \<Rightarrow> index_styles \<Rightarrow> styles \<Rightarrow> FeatureItem list
     \<Rightarrow> node \<times> FeatureItem list" where
  "Home cfg useBaseUrl ist st fl =
     (case HomepageFeatures st fl of (section, fl') \<Rightarrow>
        (Element (Comp Layout)
           [(''title'', Str (siteConfig.title cfg)),
            (''description'', Str (''Build applications with proper dependency injection, '' @
               ''clean architecture, and testing built in from the start''))]
           [Local ''HomepageHeader'' None (HomepageHeader cfg useBaseUrl ist),
            Element (Host ''main'') [] [Local ''HomepageFeatures'' None section]],
         fl'))"


section \<open>Successive renders\<close>

text \<open>
  The runtime calls the two exported components any number of times. A run is a list
  of render requests, served one after the other on the contents of \<open>FeatureList\<close>
  that the previous render left. Its trace records, for each request, the list that
  the render found and the markup it returned.
\<close>

datatype request = Render_HomepageFeatures | Render_Home

record environment =
  site_config :: siteConfig
  use_base_url :: "string \<Rightarrow> string"
  page_styles :: index_styles
  section_styles :: styles

fun render :: "environment \<Rightarrow> request \<Rightarrow> FeatureItem list \<Rightarrow> node \<times> FeatureItem list" where
  "render env Render_HomepageFeatures fl = HomepageFeatures (section_styles env) fl"
| "render env Render_Home fl =
     Home (site_config env) (use_base_url env) (page_styles env) (section_styles env) fl"

fun run ::
  "environment \<Rightarrow> request list \<Rightarrow> FeatureItem list
     \<Rightarrow> (FeatureItem list \<times> node) list \<times> FeatureItem list" where
  "run env [] fl = ([], fl)"
| "run env (r # rs) fl =
     (case render env r fl of (out, fl') \<Rightarrow>
        (case run env rs fl' of (trace, fl'') \<Rightarrow> ((fl, out) # trace, fl'')))"


section \<open>The calls of one render pass\<close>






section \<open>A sample site\<close>

text \<open>Concrete parameters on which the theorems below are instantiated: all three
  icons resolve, the CSS modules give hashed class names, and \<open>useBaseUrl\<close> prefixes
  the base URL \<open>/\<close>.\<close>

definition sample_modules :: "string \<rightharpoonup> component" where
  "sample_modules =
     [''@site/static/img/undraw_road-to-knowledge_f9zn.svg'' \<mapsto> ''SvgRoadToKnowledge'',
      ''@site/static/img/undraw_scientist_5td0.svg'' \<mapsto> ''SvgScientist'',
      ''@site/static/img/undraw_active-options_et7o.svg'' \<mapsto> ''SvgActiveOptions'']"

text \<open>The same site with the second icon file missing.\<close>

definition broken_modules :: "string \<rightharpoonup> component" where
  "broken_modules =
     [''@site/static/img/undraw_road-to-knowledge_f9zn.svg'' \<mapsto> ''SvgRoadToKnowledge'',
      ''@site/static/img/undraw_active-options_et7o.svg'' \<mapsto> ''SvgActiveOptions'']"

definition sample_items :: "FeatureItem list" where
  "sample_items = FeatureList_items ''SvgRoadToKnowledge'' ''SvgScientist'' ''SvgActiveOptions''"

definition sample_styles :: styles where
  "sample_styles = \<lparr>features = ''features_t9lD'', featureSvg = ''featureSvg_GfXr''\<rparr>"

definition sample_environment :: environment where
  "sample_environment =
     \<lparr>site_config = \<lparr>siteConfig.title = ''Alliage'', tagline = ''A framework''\<rparr>,
      use_base_url = (\<lambda>path. path),
      page_styles = \<lparr>heroBanner = ''heroBanner_qdFl'', buttons = ''buttons_AeoN''\<rparr>,
      section_styles = sample_styles\<rparr>"


section \<open>Properties of the two modules\<close>

lemma length_map_from: "length (map_from i f xs) = length xs"
  by (induction xs arbitrary: i) simp_all

lemma map_from_nth: "i < length xs \<Longrightarrow> map_from k f xs ! i = f (xs ! i) (k + i)"
proof (induction xs arbitrary: k i)
  case Nil
  then show ?case by simp
next
  case (Cons x xs)
  show ?case
  proof (cases i)
    case 0
    then show ?thesis by simp
  next
    case (Suc j)
    with Cons.prems have "j < length xs" by simp
    from Cons.IH [OF this, of "Suc k"] Suc show ?thesis by simp
  qed
qed

lemma cell_output_map_from:
  "map cell_output (map_from k (\<lambda>props idx. Local n (Some idx) (F props)) xs) = map F xs"
  by (induction xs arbitrary: k) simp_all

lemma cell_key_map_from:
  "map cell_key (map_from k (\<lambda>props idx. Local n (Some idx) (F props)) xs) =
     map Some [k..<k + length xs]"
proof (induction xs arbitrary: k)
  case Nil
  show ?case by simp
next
  case (Cons x xs)
  have "[k..<k + length (x # xs)] = k # [Suc k..<Suc k + length xs]"
    by (simp add: upt_rec)
  with Cons.IH [of "Suc k"] show ?case by simp
qed

lemma snd_HomepageFeatures: "snd (HomepageFeatures st fl) = fl"
  by (simp add: HomepageFeatures_def)

lemma snd_Home: "snd (Home cfg ubu ist st fl) = fl"
  by (simp add: Home_def HomepageFeatures_def)

lemma snd_render: "snd (render env r fl) = fl"
  by (cases r) (simp_all add: snd_HomepageFeatures snd_Home)

lemma run_conv_map: "run env rs fl = (map (\<lambda>r. (fl, fst (render env r fl))) rs, fl)"
proof (induction rs)
  case Nil
  show ?case by simp
next
  case (Cons r rs)
  obtain out where "render env r fl = (out, fl)"
    using snd_render [of env r fl] by (cases "render env r fl") simp
  with Cons.IH show ?case by simp
qed

lemma FeatureList_Inr_items:
  assumes "FeatureList modules = Inr fl"
  shows "\<exists>svg1 svg2 svg3. fl = FeatureList_items svg1 svg2 svg3"
  using assms by (auto simp: FeatureList_def require_def split: option.splits)

lemma FeatureList_Inr_resolved:
  assumes "FeatureList modules = Inr fl" and "p \<in> set icon_modules"
  shows "modules p \<noteq> None"
  using assms by (auto simp: FeatureList_def require_def icon_modules_def split: option.splits)

lemma FeatureList_Inl:
  assumes "FeatureList modules = Inl e"
  shows "\<exists>q \<in> set icon_modules. e = ModuleNotFound q \<and> modules q = None"
  using assms by (auto simp: FeatureList_def require_def icon_modules_def split: option.splits)

lemma FeatureList_sample: "FeatureList sample_modules = Inr sample_items"
  by (simp add: FeatureList_def require_def sample_modules_def sample_items_def)




lemma row_cells_HomepageFeatures:
  "row_cells (fst (HomepageFeatures st fl)) =
     array_map (\<lambda>props idx. Local ''Feature'' (Some idx) (Feature st props)) fl"
  by (simp add: HomepageFeatures_def row_cells_def row_containers_def)

lemma row_containers_HomepageFeatures:
  "row_containers (fst (HomepageFeatures st fl)) =
     [Element (Host ''div'') [(''className'', Str ''row'')]
        (array_map (\<lambda>props idx. Local ''Feature'' (Some idx) (Feature st props)) fl)]"
  by (simp add: HomepageFeatures_def row_containers_def)

lemma class_name_Feature: "class_name (Feature st props) = Some (Str ''col col--4'')"
  by (simp add: Feature_def clsx_def)

text \<open>
  C1. For a feature list of length N the rendered section holds exactly N cells, and
  the i-th cell is the output of \<open>Feature\<close> for the i-th item: the cells are in the
  order of the list.
\<close>

theorem cells_count_and_order:
  "length (row_cells (fst (HomepageFeatures st fl))) = length fl \<and>
   map cell_output (row_cells (fst (HomepageFeatures st fl))) = map (Feature st) fl"
  by (simp add: row_cells_HomepageFeatures array_map_def length_map_from cell_output_map_from)

text \<open>
  C2. In the markup of a cell the icon comes before the title, and the title before
  the description: in document order the cell is its outer \<open>div\<close>, the wrapper of the
  icon, the \<open>Svg\<close> element of the item, the wrapper of the text, the heading with the
  item's title, the paragraph, and then the item's description.
\<close>

theorem icon_title_description_order:
  "document_order (Feature st props) =
     [Feature st props,
      Element (Host ''div'') [(''className'', Str ''text--center'')]
        [Element (Comp (Svg props))
           [(''className'', Str (featureSvg st)), (''role'', Str ''img'')] []],
      Element (Comp (Svg props))
        [(''className'', Str (featureSvg st)), (''role'', Str ''img'')] [],
      Element (Host ''div'') [(''className'', Str ''text--center padding-horiz--md'')]
        [Element (Comp Heading) [(''as'', Str ''h3'')] [Text (title props)],
         Element (Host ''p'') [] [description props]],
      Element (Comp Heading) [(''as'', Str ''h3'')] [Text (title props)],
      Text (title props),
      Element (Host ''p'') [] [description props]]
     @ document_order (description props)"
  by (simp add: Feature_def)

text \<open>
  C3. Every cell that \<open>Feature\<close> returns has the grid class \<open>col col--4\<close> (a third of
  the twelve-column row), the section has exactly one row container, and every cell
  of that row carries the class.
\<close>

theorem three_column_cells_in_single_row:
  "class_name (Feature st props) = Some (Str ''col col--4'') \<and>
   length (row_containers (fst (HomepageFeatures st fl))) = 1 \<and>
   (\<forall>c \<in> set (row_cells (fst (HomepageFeatures st fl))).
      class_name (cell_output c) = Some (Str ''col col--4''))"
proof (intro conjI ballI)
  show "class_name (Feature st props) = Some (Str ''col col--4'')"
    by (rule class_name_Feature)
  show "length (row_containers (fst (HomepageFeatures st fl))) = 1"
    by (simp add: row_containers_HomepageFeatures)
next
  fix c
  assume "c \<in> set (row_cells (fst (HomepageFeatures st fl)))"
  then have "cell_output c \<in> set (map cell_output (row_cells (fst (HomepageFeatures st fl))))"
    by simp
  then have "cell_output c \<in> set (map (Feature st) fl)"
    by (simp only: row_cells_HomepageFeatures array_map_def cell_output_map_from)
  then obtain props' where "cell_output c = Feature st props'"
    by auto
  then show "class_name (cell_output c) = Some (Str ''col col--4'')"
    by (simp add: class_name_Feature)
qed

theorem three_column_cells_in_single_row_witness:
  "length (row_cells (fst (HomepageFeatures sample_styles sample_items))) = 3 \<and>
   class_name (Feature sample_styles
     \<lparr>title = ''T'', Svg = ''S'', description = Text ''D''\<rparr>) = Some (Str ''col col--4'') \<and>
   length (row_containers (fst (HomepageFeatures sample_styles sample_items))) = 1 \<and>
   class_name (cell_output (row_cells (fst (HomepageFeatures sample_styles sample_items)) ! 0)) =
     Some (Str ''col col--4'') \<and>
   class_name (cell_output (row_cells (fst (HomepageFeatures sample_styles sample_items)) ! 1)) =
     Some (Str ''col col--4'') \<and>
   class_name (cell_output (row_cells (fst (HomepageFeatures sample_styles sample_items)) ! 2)) =
     Some (Str ''col col--4'')"
proof -
  let ?cells = "row_cells (fst (HomepageFeatures sample_styles sample_items))"
  have len: "length ?cells = 3"
    by (simp add: row_cells_HomepageFeatures array_map_def length_map_from sample_items_def
        FeatureList_items_def)
  then have "?cells ! 0 \<in> set ?cells" and "?cells ! 1 \<in> set ?cells" and "?cells ! 2 \<in> set ?cells"
    by (simp_all only: nth_mem)
  with len three_column_cells_in_single_row
    [of sample_styles "\<lparr>title = ''T'', Svg = ''S'', description = Text ''D''\<rparr>" sample_items]
  show ?thesis by blast
qed

text \<open>
  C4. Rendering is deterministic: in any run, from any feature list, any two renders
  of the feature section return the same markup, the one that \<open>HomepageFeatures\<close>
  returns on the list the run started with, whatever was rendered in between.
\<close>

theorem same_request_same_markup:
  assumes "i < length rs" and "j < length rs"
    and "rs ! i = Render_HomepageFeatures" and "rs ! j = Render_HomepageFeatures"
  shows "snd (fst (run env rs fl) ! i) = snd (fst (run env rs fl) ! j) \<and>
         snd (fst (run env rs fl) ! i) = fst (HomepageFeatures (section_styles env) fl)"
  using assms by (simp add: run_conv_map)

theorem same_request_same_markup_witness:
  "(0::nat) < length [Render_HomepageFeatures, Render_Home, Render_HomepageFeatures] \<and>
   (2::nat) < length [Render_HomepageFeatures, Render_Home, Render_HomepageFeatures] \<and>
   [Render_HomepageFeatures, Render_Home, Render_HomepageFeatures] ! 0 = Render_HomepageFeatures \<and>
   [Render_HomepageFeatures, Render_Home, Render_HomepageFeatures] ! 2 = Render_HomepageFeatures \<and>
   snd (fst (run sample_environment
         [Render_HomepageFeatures, Render_Home, Render_HomepageFeatures] sample_items) ! 0) =
   snd (fst (run sample_environment
         [Render_HomepageFeatures, Render_Home, Render_HomepageFeatures] sample_items) ! 2)"
  using same_request_same_markup
    [of 0 "[Render_HomepageFeatures, Render_Home, Render_HomepageFeatures]" 2
        sample_environment sample_items]
  by simp



text \<open>
  C6. If one of the icon modules that \<open>FeatureList\<close> requires does not resolve, the
  evaluation of the module fails with \<open>ModuleNotFound\<close> for an unresolved icon, and
  there is no markup: nothing is rendered without the icon.
\<close>

theorem missing_icon_fails_build:
  assumes "p \<in> set icon_modules" and "modules p = None"
  shows "(\<exists>q \<in> set icon_modules. modules q = None \<and>
            FeatureList modules = Inl (ModuleNotFound q) \<and>
            import_and_render modules st = Inl (ModuleNotFound q)) \<and>
         (\<forall>out. import_and_render modules st \<noteq> Inr out)"
proof (cases "FeatureList modules")
  case (Inl e)
  from FeatureList_Inl [OF Inl] obtain q
    where "q \<in> set icon_modules" "e = ModuleNotFound q" "modules q = None"
    by blast
  with Inl show ?thesis
    by (auto simp: import_and_render_def)
next
  case (Inr fl)
  from FeatureList_Inr_resolved [OF Inr assms(1)] assms(2) show ?thesis
    by simp
qed

theorem missing_icon_fails_build_witness:
  "''@site/static/img/undraw_scientist_5td0.svg'' \<in> set icon_modules \<and>
   broken_modules ''@site/static/img/undraw_scientist_5td0.svg'' = None \<and>
   import_and_render broken_modules sample_styles =
     Inl (ModuleNotFound ''@site/static/img/undraw_scientist_5td0.svg'') \<and>
   (\<forall>out. import_and_render broken_modules sample_styles \<noteq> Inr out)"
proof -
  have h1: "''@site/static/img/undraw_scientist_5td0.svg'' \<in> set icon_modules"
    by (simp add: icon_modules_def)
  have h2: "broken_modules ''@site/static/img/undraw_scientist_5td0.svg'' = None"
    by (simp add: broken_modules_def)
  have "import_and_render broken_modules sample_styles =
     Inl (ModuleNotFound ''@site/static/img/undraw_scientist_5td0.svg'')"
    by (simp add: import_and_render_def FeatureList_def require_def broken_modules_def)
  with h1 h2 missing_icon_fails_build
      [where p = "''@site/static/img/undraw_scientist_5td0.svg''" and modules = broken_modules
         and st = sample_styles]
  show ?thesis
    by simp
qed

text \<open>
  C7. No render changes \<open>FeatureList\<close>: after any run of renders the list is the one
  the module defined, and every render of the run found that same list.
\<close>

theorem list_never_mutated:
  assumes "FeatureList modules = Inr fl"
  shows "snd (run env rs fl) = fl \<and>
         (\<forall>entry \<in> set (fst (run env rs fl)). FeatureList modules = Inr (fst entry))"
  using assms by (auto simp: run_conv_map)

theorem list_never_mutated_witness:
  "FeatureList sample_modules = Inr sample_items \<and>
   snd (run sample_environment [Render_Home, Render_HomepageFeatures] sample_items) =
     sample_items \<and>
   map fst (fst (run sample_environment [Render_Home, Render_HomepageFeatures] sample_items)) =
     [sample_items, sample_items]"
proof -
  have "map fst (fst (run sample_environment [Render_Home, Render_HomepageFeatures]
          sample_items)) = [sample_items, sample_items]"
    by (simp add: Home_def HomepageFeatures_def)
  with list_never_mutated [OF FeatureList_sample, of sample_environment
      "[Render_Home, Render_HomepageFeatures]"] FeatureList_sample
  show ?thesis by simp
qed

text \<open>
  C8. The list that the module defines is not empty: it has exactly three items, whose
  titles are, in this order, "Accessible by design", "Testing-driven from the ground
  up" and "Configuration that just works".
\<close>

theorem FeatureList_three_titles:
  assumes "FeatureList modules = Inr fl"
  shows "fl \<noteq> [] \<and> length fl = 3 \<and>
         map title fl = [''Accessible by design'', ''Testing-driven from the ground up'',
                         ''Configuration that just works'']"
proof -
  from FeatureList_Inr_items [OF assms] obtain svg1 svg2 svg3
    where "fl = FeatureList_items svg1 svg2 svg3" by blast
  then show ?thesis by (simp add: FeatureList_items_def)
qed

theorem FeatureList_three_titles_witness:
  "FeatureList sample_modules = Inr sample_items \<and> sample_items \<noteq> [] \<and>
   length sample_items = 3 \<and>
   map title sample_items = [''Accessible by design'', ''Testing-driven from the ground up'',
                             ''Configuration that just works'']"
  using FeatureList_three_titles [OF FeatureList_sample] FeatureList_sample
  by simp

text \<open>
  C9. The React keys of the cells are the list indices 0, ..., N - 1, in this order,
  so no two cells have the same key.
\<close>

theorem keys_are_indices:
  "map cell_key (row_cells (fst (HomepageFeatures st fl))) = map Some [0..<length fl] \<and>
   distinct (map cell_key (row_cells (fst (HomepageFeatures st fl))))"
proof -
  have keys: "map cell_key (row_cells (fst (HomepageFeatures st fl))) = map Some [0..<length fl]"
    using cell_key_map_from [of 0 "''Feature''" "Feature st" fl]
    by (simp add: row_cells_HomepageFeatures array_map_def)
  have "distinct (map Some [0..<length fl])"
    by (simp add: distinct_map)
  with keys show ?thesis by simp
qed

text \<open>
  C10. In the output of \<open>Home\<close> the whole header comes before the \<open>main\<close> element
  that holds the feature section; the header shows the site's tagline and a link
  "Get started" to \<open>/docs/intro\<close>.
\<close>

theorem header_before_features:
  "document_order (fst (Home cfg ubu ist st fl)) =
     fst (Home cfg ubu ist st fl)
       # document_order (Local ''HomepageHeader'' None (HomepageHeader cfg ubu ist))
       @ document_order (Element (Host ''main'') []
           [Local ''HomepageFeatures'' None (fst (HomepageFeatures st fl))]) \<and>
   Text (tagline cfg) \<in> set (document_order (HomepageHeader cfg ubu ist)) \<and>
   Element (Comp Link)
     [(''className'', Str ''button button--secondary button--lg''),
      (''to'', Str ''/docs/intro'')]
     [Text ''Get started''] \<in> set (document_order (HomepageHeader cfg ubu ist))"
proof (intro conjI)
  show "document_order (fst (Home cfg ubu ist st fl)) =
     fst (Home cfg ubu ist st fl)
       # document_order (Local ''HomepageHeader'' None (HomepageHeader cfg ubu ist))
       @ document_order (Element (Host ''main'') []
           [Local ''HomepageFeatures'' None (fst (HomepageFeatures st fl))])"
    by (simp add: Home_def split: prod.split)
  show "Text (tagline cfg) \<in> set (document_order (HomepageHeader cfg ubu ist))"
    by (simp add: HomepageHeader_def)
  show "Element (Comp Link)
     [(''className'', Str ''button button--secondary button--lg''),
      (''to'', Str ''/docs/intro'')]
     [Text ''Get started''] \<in> set (document_order (HomepageHeader cfg ubu ist))"
    by (simp add: HomepageHeader_def)
qed

end
